theory Spec2Isabelle
  imports Main
begin

section \<open>The book store of the GraphQL server\<close>

text \<open>
  The server keeps one in-memory array of books in its context object. The class
  \<open>App\<close> wraps the context and offers the two operations of the domain, the getter
  \<open>books\<close> and the method \<open>addBook\<close>; the root types \<open>Query\<close> and \<open>Mutation\<close>
  forward to it. Mutation of the context is modelled by explicit state passing: a method
  that writes returns the context it leaves behind next to its result.
\<close>

subsection \<open>Book.ts\<close>

text \<open>
  \<^verbatim>\<open>
  export interface BookDetails { title: string; author: string; year: number; }
  \<close>
  The input type of the schema declares \<open>year\<close> as an integer; the store itself never
  inspects it, so it is an unbounded \<open>int\<close> here.
\<close>

record BookDetails =
  title :: string
  author :: string
  year :: int

text \<open>
  \<^verbatim>\<open>
  export class Book {
    constructor(private details: BookDetails) {}
    get title() { return this.details.title; }
    get author() { return this.details.author; }
    get year() { return this.details.year; }
  }
  \<close>
  The class has one private field and three getters, and no setter.
\<close>

datatype Book = Book (Book_details: BookDetails)

definition Book_title :: "Book \<Rightarrow> string" where
  "Book_title this = title (Book_details this)"

definition Book_author :: "Book \<Rightarrow> string" where
  "Book_author this = author (Book_details this)"

definition Book_year :: "Book \<Rightarrow> int" where
  "Book_year this = year (Book_details this)"

subsection \<open>Context.ts and App.ts\<close>

text \<open>
  \<^verbatim>\<open>
  export abstract class Context {
    abstract books: Book[]
    app = new App(this)
  }
  export class App {
    constructor(private ctx: Context) {}
    get books() { return this.ctx.books }
    addBook (details: BookDetails) {
      const book = new Book(details)
      this.ctx.books.push(book)
      return book
    }
  }
  \<close>
  The two classes refer to each other: the \<open>app\<close> of a context is the one \<open>App\<close>
  built from that very context. The state of a context is therefore its array of books,
  and \<open>Context_app\<close> reads the \<open>App\<close> off the current state of the context.
\<close>

record Context =
  books :: "Book list"

datatype App = App (App_ctx: Context)

definition Context_app :: "Context \<Rightarrow> App" where
  "Context_app this = App this"

definition App_books :: "App \<Rightarrow> Book list" where
  "App_books this = books (App_ctx this)"

text \<open>\<open>Array.prototype.push\<close> with one argument: the element becomes the last one.\<close>

definition push :: "'a list \<Rightarrow> 'a \<Rightarrow> 'a list" where
  "push xs x = xs @ [x]"

definition App_addBook :: "App \<Rightarrow> BookDetails \<Rightarrow> Book \<times> Context" where
  "App_addBook this details =
     (let book = Book details;
          ctx = (App_ctx this)\<lparr>books := push (books (App_ctx this)) book\<rparr>
      in (book, ctx))"

subsection \<open>Query.ts\<close>

text \<open>
  \<^verbatim>\<open>
  export class Query {
    constructor(private ctx: Context) {}
    app(_: any, ctx: NexusGenTypes["context"]) { return ctx.app; }
    books(_: any, ctx: NexusGenTypes["context"]) { return ctx.app.books; }
  }
  \<close>
  Both methods ignore the receiver and their first argument and read the context they
  are handed.
\<close>

datatype Query = Query (Query_ctx: Context)

definition Query_app :: "Query \<Rightarrow> 'args \<Rightarrow> Context \<Rightarrow> App" where
  "Query_app this args ctx = Context_app ctx"

definition Query_books :: "Query \<Rightarrow> 'args \<Rightarrow> Context \<Rightarrow> Book list" where
  "Query_books this args ctx = App_books (Context_app ctx)"

subsection \<open>Mutation.ts\<close>

text \<open>
  \<^verbatim>\<open>
  t.field('addBook', {
    type: 'Book',
    args: { input: nonNull(inputObjectType({ name: 'BookInput', ... })) },
    async resolve (root, args, ctx) { return ctx.app.addBook(args.input) }
  })
  \<close>
  The types of the schema are names wrapped in \<open>nonNull\<close> and \<open>list\<close>. A field whose
  type is not wrapped in \<open>nonNull\<close> may resolve to \<open>null\<close>, so the result of the
  resolver of \<open>addBook\<close> is a \<open>Book option\<close>, \<open>None\<close> standing for \<open>null\<close>.
\<close>

datatype nexus_type = named string | nonNull nexus_type | list_of nexus_type

fun permits_null :: "nexus_type \<Rightarrow> bool" where
  "permits_null (nonNull t) = False"
| "permits_null (named n) = True"
| "permits_null (list_of t) = True"

definition Mutation_addBook_type :: nexus_type where
  "Mutation_addBook_type = named ''Book''"

definition Mutation_addBook_input_type :: nexus_type where
  "Mutation_addBook_input_type = nonNull (named ''BookInput'')"

definition App_books_type :: nexus_type where
  "App_books_type = nonNull (list_of (nonNull (named ''Book'')))"

definition Query_app_type :: nexus_type where
  "Query_app_type = nonNull (named ''App'')"

definition Query_books_type :: nexus_type where
  "Query_books_type = nonNull (list_of (nonNull (named ''Book'')))"

record AddBookArgs =
  input :: BookDetails

definition Mutation_addBook_resolve ::
  "'root \<Rightarrow> AddBookArgs \<Rightarrow> Context \<Rightarrow> Book option \<times> Context" where
  "Mutation_addBook_resolve root args ctx =
     (case App_addBook (Context_app ctx) (input args) of
        (book, ctx') \<Rightarrow> (Some book, ctx'))"

subsection \<open>server.ts\<close>

text \<open>
  \<^verbatim>\<open>
  class ServerContext extends Context {
    books = [new Book({ title: "My book", author: "Lachlan", year: 1990 })];
  }
  const context = new ServerContext()
  \<close>
\<close>

definition ServerContext :: Context where
  "ServerContext =
     \<lparr>books = [Book \<lparr>title = ''My book'', author = ''Lachlan'', year = 1990\<rparr>]\<rparr>"

subsection \<open>Sequences of operations on the store\<close>

text \<open>
  The store has two operations, reading the list and adding a book. \<open>perform\<close> runs
  one of them on a context through \<open>App\<close> and returns what the caller receives and the
  context afterwards; \<open>perform_all\<close> runs a sequence of them in order.
\<close>

datatype operation = list_books | add_book BookDetails

datatype outcome = listed "Book list" | added Book

fun perform :: "operation \<Rightarrow> Context \<Rightarrow> outcome \<times> Context" where
  "perform list_books ctx = (listed (App_books (Context_app ctx)), ctx)"
| "perform (add_book details) ctx =
     (case App_addBook (Context_app ctx) details of
        (book, ctx') \<Rightarrow> (added book, ctx'))"

fun perform_all :: "operation list \<Rightarrow> Context \<Rightarrow> outcome list \<times> Context" where
  "perform_all [] ctx = ([], ctx)"
| "perform_all (operation # operations) ctx =
     (case perform operation ctx of
        (outcome, ctx') \<Rightarrow>
          (case perform_all operations ctx' of
             (outcomes, ctx'') \<Rightarrow> (outcome # outcomes, ctx'')))"

text \<open>The details handed to the adds of a sequence of operations, in order.\<close>

fun added_details :: "operation list \<Rightarrow> BookDetails list" where
  "added_details [] = []"
| "added_details (list_books # operations) = added_details operations"
| "added_details (add_book details # operations) = details # added_details operations"

section \<open>Properties\<close>

subsection \<open>Helper facts\<close>

lemma App_addBook_eq:
  "App_addBook this details =
     (Book details, (App_ctx this)\<lparr>books := books (App_ctx this) @ [Book details]\<rparr>)"
  by (simp add: App_addBook_def push_def Let_def)

lemma App_books_Context_app: "App_books (Context_app ctx) = books ctx"
  by (simp add: App_books_def Context_app_def)

subsection \<open>Adding a book\<close>

text \<open>
  C1: for every store state and every details record, \<open>App.addBook\<close> constructs a Book
  whose title, author and year are the given ones, appends it as the new last element
  of the collection and returns it; listing after the add gives a collection whose last
  element has exactly the fields of the added book.
\<close>

theorem addBook_constructs_appends_returns:
  "fst (App_addBook this details) = Book details
   \<and> Book_title (fst (App_addBook this details)) = title details
   \<and> Book_author (fst (App_addBook this details)) = author details
   \<and> Book_year (fst (App_addBook this details)) = year details
   \<and> books (snd (App_addBook this details)) =
       books (App_ctx this) @ [fst (App_addBook this details)]
   \<and> App_books (Context_app (snd (App_addBook this details))) \<noteq> []
   \<and> last (App_books (Context_app (snd (App_addBook this details)))) =
       fst (App_addBook this details)
   \<and> Book_details (last (App_books (Context_app (snd (App_addBook this details))))) =
       details"
  by (simp add: App_addBook_eq App_books_Context_app Book_title_def Book_author_def
      Book_year_def)

subsection \<open>Order of the collection\<close>

lemma books_perform:
  "books (snd (perform operation ctx)) = books ctx @ map Book (added_details [operation])"
  by (cases operation) (simp_all add: App_addBook_eq App_books_Context_app Context_app_def)

lemma books_perform_all:
  "books (snd (perform_all operations ctx)) = books ctx @ map Book (added_details operations)"
proof (induction operations arbitrary: ctx)
  case Nil
  show ?case by simp
next
  case (Cons operation operations)
  obtain outcome ctx' where p: "perform operation ctx = (outcome, ctx')"
    by (cases "perform operation ctx")
  obtain outcomes ctx'' where q: "perform_all operations ctx' = (outcomes, ctx'')"
    by (cases "perform_all operations ctx'")
  have "books ctx'' = books ctx' @ map Book (added_details operations)"
    using Cons.IH [of ctx'] q by simp
  moreover have "books ctx' = books ctx @ map Book (added_details [operation])"
    using books_perform [of operation ctx] p by simp
  moreover have "added_details (operation # operations) =
      added_details [operation] @ added_details operations"
    by (cases operation) simp_all
  ultimately show ?case
    using p q by simp
qed

lemma added_details_adds: "added_details (map add_book ds) = ds"
  by (induction ds) simp_all

text \<open>
  C2: for every starting state and every sequence of adds performed in order, listing
  afterwards returns the books already present followed by the added books in the order
  in which they were added; any sequence of list and add operations keeps the
  collection in insertion order.
\<close>

theorem list_after_adds_in_insertion_order:
  "App_books (Context_app (snd (perform_all (map add_book ds) ctx))) =
     books ctx @ map Book ds
   \<and> map Book_details (App_books (Context_app (snd (perform_all (map add_book ds) ctx)))) =
       map Book_details (books ctx) @ ds
   \<and> fst (perform list_books (snd (perform_all (map add_book ds) ctx))) =
       listed (books ctx @ map Book ds)
   \<and> books (snd (perform_all operations ctx)) =
       books ctx @ map Book (added_details operations)
   \<and> books (snd (perform operation ctx)) =
       books ctx @ map Book (added_details [operation])"
  by (simp add: books_perform_all books_perform added_details_adds App_books_Context_app
      comp_def del: added_details.simps)

subsection \<open>Listing\<close>

text \<open>
  C3: for every store state, the list operation, through \<open>App.books\<close> as through
  \<open>Query.books\<close>, returns exactly the current books sequence of the context: every
  stored book in stored order, nothing filtered out, nothing added.
\<close>

theorem list_returns_context_books:
  "App_books this = books (App_ctx this)
   \<and> App_books (Context_app ctx) = books ctx
   \<and> Query_books query args ctx = books ctx
   \<and> fst (perform list_books ctx) = listed (books ctx)
   \<and> length (Query_books query args ctx) = length (books ctx)"
  by (simp add: App_books_def Context_app_def Query_books_def)

lemma perform_all_lists:
  "perform_all (replicate n list_books) ctx = (replicate n (listed (books ctx)), ctx)"
  by (induction n) (simp_all add: App_books_Context_app)

text \<open>
  C4: listing is idempotent. For every store state, a call to list leaves the state as
  it was, so a second call with no add in between returns the same sequence as the
  first, and so does every further call.
\<close>

theorem list_idempotent:
  "snd (perform list_books ctx) = ctx
   \<and> fst (perform list_books (snd (perform list_books ctx))) = fst (perform list_books ctx)
   \<and> perform_all [list_books, list_books] ctx =
       ([listed (books ctx), listed (books ctx)], ctx)
   \<and> perform_all (replicate n list_books) ctx = (replicate n (listed (books ctx)), ctx)"
  by (simp add: perform_all_lists App_books_Context_app)

subsection \<open>Books already in the collection\<close>

text \<open>
  C5: books are never changed and never removed. A book at position \<open>i\<close> of the
  collection is, after any sequence of list and add operations, still at position \<open>i\<close>
  with the same title, author and year: the collection before the operations is an
  initial segment of the collection after them.
\<close>

theorem stored_books_keep_fields_and_position:
  assumes "i < length (books ctx)"
  shows "i < length (books (snd (perform_all operations ctx)))
    \<and> books (snd (perform_all operations ctx)) ! i = books ctx ! i
    \<and> Book_title (books (snd (perform_all operations ctx)) ! i) = Book_title (books ctx ! i)
    \<and> Book_author (books (snd (perform_all operations ctx)) ! i) = Book_author (books ctx ! i)
    \<and> Book_year (books (snd (perform_all operations ctx)) ! i) = Book_year (books ctx ! i)
    \<and> take (length (books ctx)) (books (snd (perform_all operations ctx))) = books ctx"
  using assms by (simp add: books_perform_all nth_append)

theorem stored_books_keep_fields_and_position_witness:
  "0 < length (books ServerContext)
   \<and> books (snd (perform_all
        [add_book \<lparr>title = ''New title'', author = ''Lachlan'', year = 1990\<rparr>, list_books]
        ServerContext)) ! 0 =
      Book \<lparr>title = ''My book'', author = ''Lachlan'', year = 1990\<rparr>
   \<and> Book_title (books (snd (perform_all
        [add_book \<lparr>title = ''New title'', author = ''Lachlan'', year = 1990\<rparr>, list_books]
        ServerContext)) ! 0) = ''My book''"
proof -
  have h: "0 < length (books ServerContext)"
    by (simp add: ServerContext_def)
  show ?thesis
    using h stored_books_keep_fields_and_position [OF h,
        of "[add_book \<lparr>title = ''New title'', author = ''Lachlan'', year = 1990\<rparr>, list_books]"]
    by (simp add: ServerContext_def Book_title_def)
qed

subsection \<open>No failure path\<close>

lemma length_perform_all: "length (fst (perform_all operations ctx)) = length operations"
proof (induction operations arbitrary: ctx)
  case Nil
  show ?case by simp
next
  case (Cons operation operations)
  show ?case
    using Cons.IH [of "snd (perform operation ctx)"]
    by (simp add: split_beta)
qed

text \<open>
  C6: both operations return for every store state and every input of the declared
  shape. An add returns the book built from the details it was given and appends it
  whatever the details are: empty strings, a year outside the 32-bit range, a negative
  year, or the fields of a book that is already stored, which is then stored once more.
  Every operation of a sequence yields its outcome.
\<close>

theorem operations_total_without_validation:
  "App_addBook this details =
     (Book details, (App_ctx this)\<lparr>books := books (App_ctx this) @ [Book details]\<rparr>)
   \<and> App_books this = books (App_ctx this)
   \<and> length (books (snd (App_addBook this details))) = Suc (length (books (App_ctx this)))
   \<and> count_list (books (snd (App_addBook this details))) (Book details) =
       Suc (count_list (books (App_ctx this)) (Book details))
   \<and> books (snd (perform_all [add_book details, add_book details] ctx)) =
       books ctx @ [Book details, Book details]
   \<and> App_addBook this \<lparr>title = [], author = [], year = - 1\<rparr> =
       (Book \<lparr>title = [], author = [], year = - 1\<rparr>,
        (App_ctx this)\<lparr>books := books (App_ctx this) @
          [Book \<lparr>title = [], author = [], year = - 1\<rparr>]\<rparr>)
   \<and> fst (App_addBook this \<lparr>title = ''t'', author = ''a'', year = 2 ^ 40\<rparr>) =
       Book \<lparr>title = ''t'', author = ''a'', year = 2 ^ 40\<rparr>
   \<and> length (fst (perform_all operations ctx)) = length operations"
  by (simp add: App_addBook_eq App_books_def length_perform_all Context_app_def)

subsection \<open>The entry points\<close>

text \<open>
  C7: the entry points only forward. The resolver of the mutation \<open>addBook\<close> returns
  the result of \<open>App.addBook\<close> on the \<open>input\<close> argument as it was given, and the
  context it leaves is the one \<open>App.addBook\<close> leaves, the old one with the one book
  appended; the resolvers \<open>app\<close> and \<open>books\<close> of the query return what the context
  holds.
\<close>

theorem entry_points_forward:
  "Mutation_addBook_resolve root args ctx =
     (Some (fst (App_addBook (Context_app ctx) (input args))),
      snd (App_addBook (Context_app ctx) (input args)))
   \<and> fst (Mutation_addBook_resolve root args ctx) = Some (Book (input args))
   \<and> snd (Mutation_addBook_resolve root args ctx) =
       ctx\<lparr>books := books ctx @ [Book (input args)]\<rparr>
   \<and> Query_app query qargs ctx = Context_app ctx
   \<and> App_ctx (Query_app query qargs ctx) = ctx
   \<and> Query_books query qargs ctx = books ctx"
  by (simp add: Mutation_addBook_resolve_def App_addBook_eq Query_app_def Query_books_def
      App_books_def Context_app_def)

subsection \<open>The seeded server\<close>

text \<open>
  C8: the context of the server starts with exactly one book, "My book" by Lachlan,
  1990, and listing returns exactly that entry. After adding "New title" by Lachlan,
  1990, listing returns exactly two entries, the second with the fields of the input.
\<close>

theorem server_scenario:
  "books ServerContext = [Book \<lparr>title = ''My book'', author = ''Lachlan'', year = 1990\<rparr>]
   \<and> Query_books query qargs ServerContext =
       [Book \<lparr>title = ''My book'', author = ''Lachlan'', year = 1990\<rparr>]
   \<and> App_books (Query_app query qargs ServerContext) =
       [Book \<lparr>title = ''My book'', author = ''Lachlan'', year = 1990\<rparr>]
   \<and> Query_books query qargs (snd (Mutation_addBook_resolve root
         \<lparr>input = \<lparr>title = ''New title'', author = ''Lachlan'', year = 1990\<rparr>\<rparr>
         ServerContext)) =
       [Book \<lparr>title = ''My book'', author = ''Lachlan'', year = 1990\<rparr>,
        Book \<lparr>title = ''New title'', author = ''Lachlan'', year = 1990\<rparr>]
   \<and> length (Query_books query qargs (snd (Mutation_addBook_resolve root
         \<lparr>input = \<lparr>title = ''New title'', author = ''Lachlan'', year = 1990\<rparr>\<rparr>
         ServerContext))) = 2
   \<and> Book_details (Query_books query qargs (snd (Mutation_addBook_resolve root
         \<lparr>input = \<lparr>title = ''New title'', author = ''Lachlan'', year = 1990\<rparr>\<rparr>
         ServerContext)) ! 1) =
       \<lparr>title = ''New title'', author = ''Lachlan'', year = 1990\<rparr>
   \<and> perform_all
       [list_books,
        add_book \<lparr>title = ''New title'', author = ''Lachlan'', year = 1990\<rparr>,
        list_books] ServerContext =
       ([listed [Book \<lparr>title = ''My book'', author = ''Lachlan'', year = 1990\<rparr>],
         added (Book \<lparr>title = ''New title'', author = ''Lachlan'', year = 1990\<rparr>),
         listed [Book \<lparr>title = ''My book'', author = ''Lachlan'', year = 1990\<rparr>,
                 Book \<lparr>title = ''New title'', author = ''Lachlan'', year = 1990\<rparr>]],
        \<lparr>books = [Book \<lparr>title = ''My book'', author = ''Lachlan'', year = 1990\<rparr>,
                  Book \<lparr>title = ''New title'', author = ''Lachlan'', year = 1990\<rparr>]\<rparr>)"
  by (simp add: ServerContext_def Mutation_addBook_resolve_def App_addBook_eq Query_app_def
      Query_books_def App_books_def Context_app_def)

subsection \<open>Agreement of the read paths\<close>

text \<open>
  C9: for every context state, the top-level \<open>books\<close> resolver of the query and the
  \<open>books\<close> field of the \<open>App\<close> returned by the \<open>app\<close> resolver give the same
  sequence, the books of the context.
\<close>

theorem read_paths_agree:
  "Query_books query args ctx = App_books (Query_app query' args' ctx)
   \<and> Query_books query args ctx = books ctx
   \<and> App_books (Query_app query' args' ctx) = books ctx"
  by (simp add: Query_books_def Query_app_def App_books_def Context_app_def)

subsection \<open>Nullability of the mutation\<close>

text \<open>
  C10: the field \<open>addBook\<close> is declared with the plain type \<open>Book\<close>, which permits
  \<open>null\<close>, yet for every context state and every input its resolver returns a book,
  the one built from the input, and never \<open>null\<close>.
\<close>

theorem addBook_never_null:
  "permits_null Mutation_addBook_type
   \<and> fst (Mutation_addBook_resolve root args ctx) \<noteq> None
   \<and> (\<exists>book. fst (Mutation_addBook_resolve root args ctx) = Some book)
   \<and> fst (Mutation_addBook_resolve root args ctx) = Some (Book (input args))"
  by (simp add: Mutation_addBook_type_def Mutation_addBook_resolve_def App_addBook_eq)

end
